theory Spec2Isabelle
  imports Complex_Main
begin

section \<open>Data model (models.py, schemas.py)\<close>

text \<open>
  Naive UTC datetimes are integers counting microseconds, the resolution of Python's
  \<^verbatim>\<open>datetime\<close>. A \<^verbatim>\<open>timedelta\<close> is the difference of two of them, and its
  \<^verbatim>\<open>.days\<close> attribute is the floor of the difference divided by one day.
\<close>

type_synonym datetime = int

definition MICROSECONDS_PER_DAY :: int where
  "MICROSECONDS_PER_DAY = 86400000000"

definition MICROSECONDS_PER_HOUR :: int where
  "MICROSECONDS_PER_HOUR = 3600000000"

definition days :: "int \<Rightarrow> int" where
  "days delta = delta div MICROSECONDS_PER_DAY"

text \<open>
  The request schema's hazard types (schemas.py); the member \<^verbatim>\<open>REPORTED\<close> of that enum
  is written \<open>REPORTED_type\<close>, the name being taken by the status below.
\<close>

datatype HazardType = ACCIDENT | POTHOLE | ROADBLOCK | DEBRIS | REPORTED_type

datatype HazardStatus = REPORTED | PENDING_AUTHORITY | VERIFIED | RESOLVED

datatype AuthorityLevel = LOCAL | STATE | NATIONAL

text \<open>The \<^verbatim>\<open>.value\<close> of the string enums.\<close>

fun status_value :: "HazardStatus \<Rightarrow> string" where
  "status_value REPORTED = ''REPORTED''"
| "status_value PENDING_AUTHORITY = ''PENDING_AUTHORITY''"
| "status_value VERIFIED = ''VERIFIED''"
| "status_value RESOLVED = ''RESOLVED''"

text \<open>
  \<^verbatim>\<open>HazardStatus\<close> is declared \<^verbatim>\<open>class HazardStatus(str, Enum)\<close>. On such a
  member \<^verbatim>\<open>str()\<close> is \<^verbatim>\<open>Enum.__str__\<close>: the class name, a dot and the member's
  name, not the member's value.
\<close>

fun status_name :: "HazardStatus \<Rightarrow> string" where
  "status_name REPORTED = ''REPORTED''"
| "status_name PENDING_AUTHORITY = ''PENDING_AUTHORITY''"
| "status_name VERIFIED = ''VERIFIED''"
| "status_name RESOLVED = ''RESOLVED''"

definition str_status :: "HazardStatus \<Rightarrow> string" where
  "str_status s = ''HazardStatus.'' @ status_name s"

fun level_value :: "AuthorityLevel \<Rightarrow> string" where
  "level_value LOCAL = ''LOCAL''"
| "level_value STATE = ''STATE''"
| "level_value NATIONAL = ''NATIONAL''"

text \<open>
  The mapped columns of table \<^verbatim>\<open>hazards\<close>, in the order of class \<^verbatim>\<open>Hazard\<close>. The
  class maps no \<^verbatim>\<open>verified_at\<close> column. Latitude and longitude are only ever compared
  with constants, so they are real numbers here. \<open>hazard_type\<close> is the type as the
  row stores it: \<^verbatim>\<open>report_hazard\<close> hands the column a member of the request's enum.
\<close>

record Hazard =
  hz_id :: string
  hazard_type :: HazardType
  latitude :: real
  longitude :: real
  observed_at :: "datetime option"
  status :: HazardStatus
  created_at :: datetime
  updated_at :: datetime
  resolved_at :: "datetime option"

record Authority =
  au_id :: string
  au_name :: string
  au_email :: string
  au_phone :: "string option"
  au_level :: AuthorityLevel
  au_jurisdiction :: string
  au_is_active :: bool
  au_jwt_secret :: string
  au_created_at :: datetime
  au_updated_at :: datetime

record AuthorityVerification =
  av_id :: string
  av_hazard_id :: string
  av_authority_id :: string
  av_token :: string
  av_token_expires_at :: datetime
  av_is_verified :: bool
  av_verified_at :: "datetime option"
  av_rejection_reason :: "string option"
  av_created_at :: datetime
  av_updated_at :: datetime

text \<open>
  Table \<^verbatim>\<open>audit_logs\<close>. The two status columns hold what the routes assign to them:
  the string \<^verbatim>\<open>old_status\<close> and the \<^verbatim>\<open>.value\<close> of the new status.
\<close>

record AuditLog =
  al_id :: string
  al_hazard_id :: string
  al_authority_id :: "string option"
  al_action :: string
  al_old_status :: "string option"
  al_new_status :: "string option"
  al_notes :: "string option"
  al_timestamp :: datetime

text \<open>
  db.py builds the engine from \<^verbatim>\<open>DATABASE_URL\<close>: SQLite by default, any other
  database otherwise. The two differ on the \<^verbatim>\<open>LIMIT\<close> they accept, see
  \<open>sql_limit\<close>, and on the hazard types they store, see \<open>report_hazard\<close>.
\<close>

datatype engine = SQLite | PostgreSQL

record database =
  engine :: engine
  hazards :: "Hazard list"
  authorities :: "Authority list"
  authority_verifications :: "AuthorityVerification list"
  audit_logs :: "AuditLog list"

text \<open>
  What a request can end with other than its value: an \<^verbatim>\<open>HTTPException\<close> with status
  code and detail, a request that fails Pydantic validation (the fields at fault), the
  \<^verbatim>\<open>ValueError\<close> of a validator, an attribute that the object read does not have,
  a comparison of values of the wrong type, a stored value that the column's enum does not
  have, an integer that SQLite's driver cannot bind, a primary key already present at
  commit, a value that PostgreSQL refuses.
\<close>

datatype error =
    HTTPException nat string
  | ValidationError "string list"
  | ValueError string
  | AttributeError string
  | TypeError
  | LookupError
  | OverflowError
  | IntegrityError
  | DataError

text \<open>
  What the environment hands to one request: the value of \<^verbatim>\<open>uuid.uuid4()\<close> and the
  successive readings of \<^verbatim>\<open>datetime.utcnow()\<close>, numbered from 0 in the order in which
  the request takes them. Nothing is assumed about the readings.
\<close>

record environment =
  uuid4 :: string
  utcnow :: "nat \<Rightarrow> datetime"

section \<open>Queries\<close>

text \<open>
  \<^verbatim>\<open>Query.limit(n)\<close> sends \<^verbatim>\<open>LIMIT n\<close> to the database without looking at
  \<open>n\<close>. SQLite's driver binds 64-bit integers only and raises \<^verbatim>\<open>OverflowError\<close>
  for any other; a negative \<^verbatim>\<open>LIMIT\<close> means no upper bound there, and a
  non-negative one keeps the first \<open>n\<close> rows. PostgreSQL refuses a negative
  \<^verbatim>\<open>LIMIT\<close> and one that is no 64-bit integer.
\<close>

definition sql_limit :: "engine \<Rightarrow> int \<Rightarrow> 'a list \<Rightarrow> error + 'a list" where
  "sql_limit e n rows =
     (case e of
        SQLite \<Rightarrow>
          if n < - (2 ^ 63) \<or> 2 ^ 63 \<le> n then Inl OverflowError
          else if n < 0 then Inr rows
          else Inr (take (nat n) rows)
      | PostgreSQL \<Rightarrow>
          if n < 0 \<or> 2 ^ 63 \<le> n then Inl DataError
          else Inr (take (nat n) rows))"

text \<open>\<^verbatim>\<open>order_by(Hazard.created_at.desc())\<close>: ascending in the negated timestamp.\<close>

definition order_by_created_at_desc :: "Hazard list \<Rightarrow> Hazard list" where
  "order_by_created_at_desc rows = sort_key (\<lambda>h. - created_at h) rows"

text \<open>
  Column \<^verbatim>\<open>hazard_type\<close> is declared \<^verbatim>\<open>SQLEnum(HazardType)\<close> over the enum of
  models.py, whose members are ACCIDENT, POTHOLE and ROADBLOCK. A row that a query turns
  into an object passes through that enum, and a stored type outside it raises
  \<^verbatim>\<open>LookupError\<close>. \<open>all_rows\<close> is \<^verbatim>\<open>Query.all()\<close> on the rows the statement
  returns, \<open>first_hazard\<close> is
  \<^verbatim>\<open>db.query(Hazard).filter(Hazard.id == hazard_id).first()\<close>.
\<close>

fun models_HazardType :: "HazardType \<Rightarrow> bool" where
  "models_HazardType ACCIDENT = True"
| "models_HazardType POTHOLE = True"
| "models_HazardType ROADBLOCK = True"
| "models_HazardType DEBRIS = False"
| "models_HazardType REPORTED_type = False"

definition loadable :: "Hazard \<Rightarrow> bool" where
  "loadable h = models_HazardType (hazard_type h)"

definition all_rows :: "Hazard list \<Rightarrow> error + Hazard list" where
  "all_rows rows = (if list_all loadable rows then Inr rows else Inl LookupError)"

definition first_hazard :: "string \<Rightarrow> database \<Rightarrow> error + Hazard option" where
  "first_hazard hazard_id db =
     (case find (\<lambda>h. hz_id h = hazard_id) (hazards db) of
        None \<Rightarrow> Inr None
      | Some h \<Rightarrow> if loadable h then Inr (Some h) else Inl LookupError)"

text \<open>hazards_routes.py, \<^verbatim>\<open>GET /hazards/verified\<close>.\<close>

definition get_verified_hazards_for_driver :: "database \<Rightarrow> int \<Rightarrow> error + Hazard list" where
  "get_verified_hazards_for_driver db limit =
     (case sql_limit (engine db) limit
             (order_by_created_at_desc (filter (\<lambda>h. status h = VERIFIED) (hazards db))) of
        Inl e \<Rightarrow> Inl e
      | Inr rows \<Rightarrow> all_rows rows)"

text \<open>authority_routes.py, \<^verbatim>\<open>GET /authority/stats\<close>: the returned dictionary.\<close>

record stats =
  pending_authority :: nat
  verified :: nat
  resolved :: nat
  total :: nat

definition count_status :: "database \<Rightarrow> HazardStatus \<Rightarrow> nat" where
  "count_status db s = length (filter (\<lambda>h. status h = s) (hazards db))"

definition get_authority_stats :: "database \<Rightarrow> stats" where
  "get_authority_stats db =
     (let pending = count_status db PENDING_AUTHORITY;
          verified = count_status db VERIFIED;
          resolved = count_status db RESOLVED
      in \<lparr>pending_authority = pending, verified = verified, resolved = resolved,
          total = pending + verified + resolved\<rparr>)"

text \<open>
  An object of class \<^verbatim>\<open>Hazard\<close> during one request: the columns of its row, and the
  plain attribute \<^verbatim>\<open>verified_at\<close> that \<^verbatim>\<open>verify_hazard\<close> assigns to the object.
  The attribute is no column, so it lives on the object only; \<open>None\<close> stands for an
  object without it, which \<^verbatim>\<open>HazardDetailResponse\<close> shows as its default
  \<^verbatim>\<open>None\<close>.
\<close>

record HazardInstance =
  row :: Hazard
  verified_at :: "datetime option"

definition load :: "Hazard \<Rightarrow> HazardInstance" where
  "load r = \<lparr>row = r, verified_at = None\<rparr>"

text \<open>authority_routes.py, \<^verbatim>\<open>GET /authority/hazards\<close>.\<close>

definition get_hazards_for_authority ::
  "HazardStatus option \<Rightarrow> database \<Rightarrow> int \<Rightarrow> error + HazardInstance list" where
  "get_hazards_for_authority status_filter db limit =
     (let query = (case status_filter of
                     None \<Rightarrow> hazards db
                   | Some s \<Rightarrow> filter (\<lambda>h. status h = s) (hazards db))
      in case sql_limit (engine db) limit (order_by_created_at_desc query) of
           Inl e \<Rightarrow> Inl e
         | Inr rows \<Rightarrow>
             (case all_rows rows of
                Inl e \<Rightarrow> Inl e
              | Inr loaded \<Rightarrow> Inr (map load loaded)))"

section \<open>Authentication (auth.py)\<close>

text \<open>
  A bearer token is given by what \<^verbatim>\<open>jwt.decode\<close> makes of it: its payload, or one of
  the two exceptions that \<^verbatim>\<open>decode_access_token\<close> catches.
\<close>

datatype credentials =
    Payload "(string \<times> string) list"
  | ExpiredSignatureError
  | InvalidTokenError

definition decode_access_token :: "credentials \<Rightarrow> error + (string \<times> string) list" where
  "decode_access_token token =
     (case token of
        Payload payload \<Rightarrow> Inr payload
      | ExpiredSignatureError \<Rightarrow> Inl (HTTPException 401 ''Token has expired'')
      | InvalidTokenError \<Rightarrow> Inl (HTTPException 401 ''Could not validate credentials''))"

definition get_current_authority :: "credentials \<Rightarrow> database \<Rightarrow> error + Authority" where
  "get_current_authority token db =
     (case decode_access_token token of
        Inl e \<Rightarrow> Inl e
      | Inr payload \<Rightarrow>
          (case map_of payload ''authority_id'' of
             None \<Rightarrow> Inl (HTTPException 401 ''Invalid authentication credentials'')
           | Some authority_id \<Rightarrow>
               (case find (\<lambda>a. au_id a = authority_id) (authorities db) of
                  None \<Rightarrow> Inl (HTTPException 401 ''Authority not found'')
                | Some authority \<Rightarrow> Inr authority)))"

text \<open>
  The dependency that checks the jurisdiction. No route of authority_routes.py depends
  on it: all of them depend on \<^verbatim>\<open>get_current_authority\<close>.
\<close>

definition get_current_verifier :: "Authority \<Rightarrow> error + Authority" where
  "get_current_verifier authority =
     (if au_jurisdiction authority \<notin> set [level_value STATE, level_value LOCAL]
      then Inl (HTTPException 403 ''Insufficient permissions. VERIFIER role required.'')
      else Inr authority)"

section \<open>Hazard transitions (authority_routes.py)\<close>

record AuthorityVerificationRequest =
  request_notes :: "string option"

text \<open>Python's \<^verbatim>\<open>request.notes or fallback\<close>: an absent or empty note gives the fallback.\<close>

definition notes_or :: "string option \<Rightarrow> string \<Rightarrow> string" where
  "notes_or n fallback = (case n of None \<Rightarrow> fallback | Some t \<Rightarrow> if t = [] then fallback else t)"

text \<open>
  \<^verbatim>\<open>db.add(audit_log); db.commit()\<close> after the object's status was assigned: one
  transaction that updates the hazard's row and inserts the audit row. The update writes
  the assigned status, and \<^verbatim>\<open>updated_at\<close> through the column's
  \<^verbatim>\<open>onupdate=datetime.utcnow\<close>; no other column was assigned. An audit id already in
  the table makes the commit fail, and nothing is written.
\<close>

definition commit_transition ::
  "string \<Rightarrow> HazardStatus \<Rightarrow> datetime \<Rightarrow> AuditLog \<Rightarrow> database \<Rightarrow> error + database" where
  "commit_transition hazard_id new_status now audit_log db =
     (if al_id audit_log \<in> set (map al_id (audit_logs db)) then Inl IntegrityError
      else Inr (db\<lparr>hazards :=
                     map (\<lambda>r. if hz_id r = hazard_id
                              then r\<lparr>status := new_status, updated_at := now\<rparr> else r)
                       (hazards db),
                   audit_logs := audit_logs db @ [audit_log]\<rparr>))"

text \<open>
  The three transitions. Each returns its result together with the database it leaves.
  The hazard is an object loaded by \<open>first_hazard\<close>, so its \<^verbatim>\<open>status\<close> is a member
  of \<^verbatim>\<open>HazardStatus\<close>, and the guard compares \<^verbatim>\<open>str(hazard.status)\<close>, which is
  \<open>str_status\<close>, with the \<^verbatim>\<open>.value\<close> of the expected member. Clock readings: in
  \<^verbatim>\<open>verify_hazard\<close> 0 is \<^verbatim>\<open>verified_at\<close>, 1 the audit timestamp, 2 the update
  of the row; in the other two 0 is the audit timestamp and 1 the update of the row.
\<close>

definition verify_hazard ::
  "string \<Rightarrow> AuthorityVerificationRequest \<Rightarrow> Authority \<Rightarrow> environment \<Rightarrow> database
     \<Rightarrow> (error + HazardInstance) \<times> database" where
  "verify_hazard hazard_id request authority env db =
     (case first_hazard hazard_id db of
        Inl e \<Rightarrow> (Inl e, db)
      | Inr None \<Rightarrow> (Inl (HTTPException 404 (''Hazard '' @ hazard_id @ '' not found'')), db)
      | Inr (Some hazard) \<Rightarrow>
          (let current_status = str_status (status hazard) in
           if current_status \<noteq> status_value PENDING_AUTHORITY
           then (Inl (HTTPException 400
                   (''Hazard is in '' @ current_status @ '' status, cannot verify'')), db)
           else
             (let old_status = current_status;
                  audit_log = \<lparr>al_id = uuid4 env,
                               al_hazard_id = hz_id hazard,
                               al_authority_id = Some (au_id authority),
                               al_action = ''VERIFY'',
                               al_old_status = Some old_status,
                               al_new_status = Some (status_value VERIFIED),
                               al_notes = Some (notes_or (request_notes request)
                                                  (''Verified by '' @ au_email authority)),
                               al_timestamp = utcnow env 1\<rparr>
              in case commit_transition (hz_id hazard) VERIFIED (utcnow env 2) audit_log db of
                   Inl e \<Rightarrow> (Inl e, db)
                 | Inr db' \<Rightarrow>
                     (Inr \<lparr>row = hazard\<lparr>status := VERIFIED, updated_at := utcnow env 2\<rparr>,
                           verified_at = Some (utcnow env 0)\<rparr>, db'))))"

definition reject_hazard ::
  "string \<Rightarrow> AuthorityVerificationRequest \<Rightarrow> Authority \<Rightarrow> environment \<Rightarrow> database
     \<Rightarrow> (error + HazardInstance) \<times> database" where
  "reject_hazard hazard_id request authority env db =
     (case first_hazard hazard_id db of
        Inl e \<Rightarrow> (Inl e, db)
      | Inr None \<Rightarrow> (Inl (HTTPException 404 (''Hazard '' @ hazard_id @ '' not found'')), db)
      | Inr (Some hazard) \<Rightarrow>
          (let current_status = str_status (status hazard) in
           if current_status \<noteq> status_value PENDING_AUTHORITY
           then (Inl (HTTPException 400
                   (''Hazard is in '' @ current_status @ '' status, cannot reject'')), db)
           else
             (let old_status = current_status;
                  audit_log = \<lparr>al_id = uuid4 env,
                               al_hazard_id = hz_id hazard,
                               al_authority_id = Some (au_id authority),
                               al_action = ''REJECT'',
                               al_old_status = Some old_status,
                               al_new_status = Some (status_value RESOLVED),
                               al_notes = Some (notes_or (request_notes request)
                                                  (''Rejected by '' @ au_email authority)),
                               al_timestamp = utcnow env 0\<rparr>
              in case commit_transition (hz_id hazard) RESOLVED (utcnow env 1) audit_log db of
                   Inl e \<Rightarrow> (Inl e, db)
                 | Inr db' \<Rightarrow>
                     (Inr (load (hazard\<lparr>status := RESOLVED, updated_at := utcnow env 1\<rparr>)), db'))))"

definition resolve_hazard ::
  "string \<Rightarrow> AuthorityVerificationRequest \<Rightarrow> Authority \<Rightarrow> environment \<Rightarrow> database
     \<Rightarrow> (error + HazardInstance) \<times> database" where
  "resolve_hazard hazard_id request authority env db =
     (case first_hazard hazard_id db of
        Inl e \<Rightarrow> (Inl e, db)
      | Inr None \<Rightarrow> (Inl (HTTPException 404 (''Hazard '' @ hazard_id @ '' not found'')), db)
      | Inr (Some hazard) \<Rightarrow>
          (let current_status = str_status (status hazard) in
           if current_status \<noteq> status_value VERIFIED
           then (Inl (HTTPException 400
                   (''Hazard is in '' @ current_status @ '' status, cannot resolve (must be VERIFIED)'')), db)
           else
             (let old_status = current_status;
                  audit_log = \<lparr>al_id = uuid4 env,
                               al_hazard_id = hz_id hazard,
                               al_authority_id = Some (au_id authority),
                               al_action = ''RESOLVE'',
                               al_old_status = Some old_status,
                               al_new_status = Some (status_value RESOLVED),
                               al_notes = Some (notes_or (request_notes request)
                                                  (''Resolved by '' @ au_email authority)),
                               al_timestamp = utcnow env 0\<rparr>
              in case commit_transition (hz_id hazard) RESOLVED (utcnow env 1) audit_log db of
                   Inl e \<Rightarrow> (Inl e, db)
                 | Inr db' \<Rightarrow>
                     (Inr (load (hazard\<lparr>status := RESOLVED, updated_at := utcnow env 1\<rparr>)), db'))))"

text \<open>
  The routes as FastAPI calls them: the dependency \<^verbatim>\<open>get_current_authority\<close> is
  resolved first, then the body is validated (\<^verbatim>\<open>notes\<close> has at most 1000
  characters), then the function runs.
\<close>

definition validate_AuthorityVerificationRequest ::
  "AuthorityVerificationRequest \<Rightarrow> error + AuthorityVerificationRequest" where
  "validate_AuthorityVerificationRequest request =
     (case request_notes request of
        None \<Rightarrow> Inr request
      | Some n \<Rightarrow> if length n \<le> 1000 then Inr request else Inl (ValidationError [''notes'']))"

definition authority_route ::
  "(string \<Rightarrow> AuthorityVerificationRequest \<Rightarrow> Authority \<Rightarrow> environment \<Rightarrow> database
      \<Rightarrow> (error + HazardInstance) \<times> database)
   \<Rightarrow> credentials \<Rightarrow> string \<Rightarrow> AuthorityVerificationRequest \<Rightarrow> environment \<Rightarrow> database
   \<Rightarrow> (error + HazardInstance) \<times> database" where
  "authority_route endpoint token hazard_id request env db =
     (case get_current_authority token db of
        Inl e \<Rightarrow> (Inl e, db)
      | Inr authority \<Rightarrow>
          (case validate_AuthorityVerificationRequest request of
             Inl e \<Rightarrow> (Inl e, db)
           | Inr request' \<Rightarrow> endpoint hazard_id request' authority env db))"

definition verify_hazard_route where
  "verify_hazard_route = authority_route verify_hazard"

definition reject_hazard_route where
  "reject_hazard_route = authority_route reject_hazard"

definition resolve_hazard_route where
  "resolve_hazard_route = authority_route resolve_hazard"

section \<open>Token redemption (authority_routes.py)\<close>

text \<open>
  Reading an attribute of an object of class \<^verbatim>\<open>AuthorityVerification\<close> loaded from
  its row. The object has the attributes that the class maps, under the names the class
  gives them; any other name raises \<^verbatim>\<open>AttributeError\<close>.
\<close>

datatype pyvalue = Str string | Bool bool | DateTime datetime | NoneValue

definition optional :: "('a \<Rightarrow> pyvalue) \<Rightarrow> 'a option \<Rightarrow> pyvalue" where
  "optional f x = (case x of None \<Rightarrow> NoneValue | Some y \<Rightarrow> f y)"

definition getattr :: "AuthorityVerification \<Rightarrow> string \<Rightarrow> error + pyvalue" where
  "getattr v name =
     (if name = ''id'' then Inr (Str (av_id v))
      else if name = ''hazard_id'' then Inr (Str (av_hazard_id v))
      else if name = ''authority_id'' then Inr (Str (av_authority_id v))
      else if name = ''token'' then Inr (Str (av_token v))
      else if name = ''token_expires_at'' then Inr (DateTime (av_token_expires_at v))
      else if name = ''is_verified'' then Inr (Bool (av_is_verified v))
      else if name = ''verified_at'' then Inr (optional DateTime (av_verified_at v))
      else if name = ''rejection_reason'' then Inr (optional Str (av_rejection_reason v))
      else if name = ''created_at'' then Inr (DateTime (av_created_at v))
      else if name = ''updated_at'' then Inr (DateTime (av_updated_at v))
      else Inl (AttributeError name))"

record token_response =
  tr_status :: string
  tr_message :: string
  tr_hazard_id :: string
  tr_authority_id :: string
  tr_authority_email :: string
  tr_authority_jurisdiction :: string

text \<open>
  \<^verbatim>\<open>POST /authority/verify-token\<close>. The function reads \<^verbatim>\<open>verification.used\<close>
  and \<^verbatim>\<open>verification.expires_at\<close>. The assignments to \<^verbatim>\<open>used\<close> and
  \<^verbatim>\<open>used_at\<close> set plain attributes of the object, as no column has these names, so
  the commit after them writes nothing. Clock reading 0 is the one compared with the
  expiry.
\<close>

definition verify_authority_token ::
  "string \<Rightarrow> string \<Rightarrow> environment \<Rightarrow> database \<Rightarrow> (error + token_response) \<times> database" where
  "verify_authority_token hazard_id token env db =
     (case find (\<lambda>v. av_hazard_id v = hazard_id \<and> av_token v = token)
             (authority_verifications db) of
        None \<Rightarrow> (Inl (HTTPException 404 ''Invalid verification token''), db)
      | Some verification \<Rightarrow>
          (case getattr verification ''used'' of
             Inl e \<Rightarrow> (Inl e, db)
           | Inr used \<Rightarrow>
               if used = Bool True
               then (Inl (HTTPException 400 ''Token has already been used''), db)
               else
                 (case getattr verification ''expires_at'' of
                    Inl e \<Rightarrow> (Inl e, db)
                  | Inr (DateTime expires_at) \<Rightarrow>
                      if utcnow env 0 > expires_at
                      then (Inl (HTTPException 400 ''Token has expired''), db)
                      else
                        (case find (\<lambda>a. au_id a = av_authority_id verification)
                                (authorities db) of
                           None \<Rightarrow> (Inl (HTTPException 404 ''Authority not found''), db)
                         | Some authority \<Rightarrow>
                             (Inr \<lparr>tr_status = ''verified'',
                                   tr_message = ''Token verified successfully'',
                                   tr_hazard_id = hazard_id,
                                   tr_authority_id = au_id authority,
                                   tr_authority_email = au_email authority,
                                   tr_authority_jurisdiction = au_jurisdiction authority\<rparr>,
                              db))
                  | Inr _ \<Rightarrow> (Inl TypeError, db))))"

section \<open>Reporting (schemas.py, hazards_routes.py)\<close>

text \<open>
  The body of \<^verbatim>\<open>POST /hazards/report\<close> after JSON decoding: \<open>body_observed_at\<close> is
  \<open>None\<close> when the body has no such field. \<^verbatim>\<open>HazardReportRequest\<close> is the validated
  model.
\<close>

record report_body =
  body_hazard_type :: HazardType
  body_latitude :: real
  body_longitude :: real
  body_observed_at :: "datetime option"

record HazardReportRequest =
  rq_hazard_type :: HazardType
  rq_latitude :: real
  rq_longitude :: real
  rq_observed_at :: datetime

text \<open>
  The validator of \<^verbatim>\<open>observed_at\<close>. It reads the clock twice: \<open>now1\<close> for the first
  test, \<open>now2\<close> for the second.
\<close>

definition validate_observed_at :: "datetime \<Rightarrow> datetime \<Rightarrow> datetime \<Rightarrow> error + datetime" where
  "validate_observed_at now1 now2 v =
     (if v > now1 then Inl (ValueError ''observed_at cannot be in the future'')
      else if days (now2 - v) > 1 then Inl (ValueError ''observed_at must be within last 24 hours'')
      else Inr v)"

text \<open>
  Pydantic checks every field and reports all failures together. A missing
  \<^verbatim>\<open>observed_at\<close> takes the default factory (clock reading 0) and is not validated; a
  given one goes through the validator (readings 1 and 2).
\<close>

definition validate_HazardReportRequest ::
  "environment \<Rightarrow> report_body \<Rightarrow> error + HazardReportRequest" where
  "validate_HazardReportRequest env body =
     (let errors =
            (if - 90 \<le> body_latitude body \<and> body_latitude body \<le> 90 then [] else [''latitude''])
          @ (if - 180 \<le> body_longitude body \<and> body_longitude body \<le> 180 then []
             else [''longitude''])
          @ (case body_observed_at body of
               None \<Rightarrow> []
             | Some v \<Rightarrow>
                 (case validate_observed_at (utcnow env 1) (utcnow env 2) v of
                    Inl e \<Rightarrow> [''observed_at'']
                  | Inr v' \<Rightarrow> []))
      in if errors = []
         then Inr \<lparr>rq_hazard_type = body_hazard_type body,
                   rq_latitude = body_latitude body,
                   rq_longitude = body_longitude body,
                   rq_observed_at = (case body_observed_at body of
                                       None \<Rightarrow> utcnow env 0 | Some v \<Rightarrow> v)\<rparr>
         else Inl (ValidationError errors))"

record report_response =
  rs_status :: string
  rs_message :: string
  rs_hazard_id :: string
  rs_timestamp :: datetime

text \<open>
  \<^verbatim>\<open>report_hazard\<close>: the insert fills \<^verbatim>\<open>id\<close>, \<^verbatim>\<open>created_at\<close> and
  \<^verbatim>\<open>updated_at\<close> from the column defaults (\<^verbatim>\<open>uuid4\<close>, clock readings 3 and 4);
  reading 5 is the timestamp of the response. The background task
  \<^verbatim>\<open>notify_authorities_of_hazard\<close> is \<^verbatim>\<open>pass\<close>.

  The request's enum (schemas.py) has the members DEBRIS and REPORTED, which the enum of
  the column (models.py) has not. SQLite keeps the column as text and stores such a type
  as it comes; PostgreSQL keeps it in an enum type of the three members and refuses the
  insert. After the commit \<^verbatim>\<open>db.refresh(hazard)\<close> reads the row back: for a type
  outside models.py's enum it raises \<^verbatim>\<open>LookupError\<close>, the row being stored already.
\<close>

definition report_hazard ::
  "HazardReportRequest \<Rightarrow> environment \<Rightarrow> database \<Rightarrow> (error + report_response) \<times> database" where
  "report_hazard report env db =
     (let hazard = \<lparr>hz_id = uuid4 env,
                    hazard_type = rq_hazard_type report,
                    latitude = rq_latitude report,
                    longitude = rq_longitude report,
                    observed_at = Some (rq_observed_at report),
                    status = PENDING_AUTHORITY,
                    created_at = utcnow env 3,
                    updated_at = utcnow env 4,
                    resolved_at = None\<rparr>
      in if engine db = PostgreSQL \<and> \<not> loadable hazard then (Inl DataError, db)
         else if hz_id hazard \<in> set (map hz_id (hazards db)) then (Inl IntegrityError, db)
         else
           (let db' = db\<lparr>hazards := hazards db @ [hazard]\<rparr>
            in if \<not> loadable hazard then (Inl LookupError, db')
               else (Inr \<lparr>rs_status = ''received'',
                           rs_message = ''Hazard report sent to safety team'',
                           rs_hazard_id = hz_id hazard,
                           rs_timestamp = utcnow env 5\<rparr>,
                     db')))"

definition report_hazard_route ::
  "report_body \<Rightarrow> environment \<Rightarrow> database \<Rightarrow> (error + report_response) \<times> database" where
  "report_hazard_route body env db =
     (case validate_HazardReportRequest env body of
        Inl e \<Rightarrow> (Inl e, db)
      | Inr report \<Rightarrow> report_hazard report env db)"

section \<open>Sequences of transitions\<close>

text \<open>
  One call of one of the three transitions, and a run of such calls against the
  database: every call leaves a database, whether it succeeds or fails, and the next
  call starts from it.
\<close>

datatype operation = Verify | Reject | Resolve

fun transition ::
  "operation \<Rightarrow> string \<Rightarrow> AuthorityVerificationRequest \<Rightarrow> Authority \<Rightarrow> environment
     \<Rightarrow> database \<Rightarrow> (error + HazardInstance) \<times> database" where
  "transition Verify = verify_hazard"
| "transition Reject = reject_hazard"
| "transition Resolve = resolve_hazard"

record call =
  call_operation :: operation
  call_hazard_id :: string
  call_request :: AuthorityVerificationRequest
  call_authority :: Authority
  call_environment :: environment

definition perform :: "call \<Rightarrow> database \<Rightarrow> (error + HazardInstance) \<times> database" where
  "perform c db =
     transition (call_operation c) (call_hazard_id c) (call_request c) (call_authority c)
       (call_environment c) db"

fun run :: "call list \<Rightarrow> database \<Rightarrow> database" where
  "run [] db = db"
| "run (c # cs) db = run cs (snd (perform c db))"



section \<open>Example data\<close>

definition example_authority :: Authority where
  "example_authority =
     \<lparr>au_id = ''a1'', au_name = ''Federal Highway Office'', au_email = ''fho@example.org'',
      au_phone = None, au_level = NATIONAL, au_jurisdiction = ''I-93 North'',
      au_is_active = False, au_jwt_secret = ''s'', au_created_at = 0, au_updated_at = 0\<rparr>"

definition example_hazard :: Hazard where
  "example_hazard =
     \<lparr>hz_id = ''h1'', hazard_type = POTHOLE, latitude = 40, longitude = - 74,
      observed_at = Some 90, status = PENDING_AUTHORITY, created_at = 100, updated_at = 100,
      resolved_at = None\<rparr>"

definition example_verification :: AuthorityVerification where
  "example_verification =
     \<lparr>av_id = ''v1'', av_hazard_id = ''h1'', av_authority_id = ''a1'', av_token = ''t1'',
      av_token_expires_at = 500, av_is_verified = False, av_verified_at = None,
      av_rejection_reason = None, av_created_at = 100, av_updated_at = 100\<rparr>"

definition example_db :: database where
  "example_db =
     \<lparr>engine = SQLite, hazards = [example_hazard], authorities = [example_authority],
      authority_verifications = [example_verification], audit_logs = []\<rparr>"

text \<open>An environment whose clock reads 1000, 1001, ... and whose \<^verbatim>\<open>uuid4\<close> is the
  given string.\<close>

definition example_env :: "string \<Rightarrow> environment" where
  "example_env u = \<lparr>uuid4 = u, utcnow = (\<lambda>k. 1000 + int k)\<rparr>"

definition no_notes :: AuthorityVerificationRequest where
  "no_notes = \<lparr>request_notes = None\<rparr>"

definition example_call :: "operation \<Rightarrow> string \<Rightarrow> call" where
  "example_call op u =
     \<lparr>call_operation = op, call_hazard_id = ''h1'', call_request = no_notes,
      call_authority = example_authority, call_environment = example_env u\<rparr>"

text \<open>A report of a pothole observed at hour 64, sent when the clock reads hour 100
  at every reading: 36 hours after the observation.\<close>

definition example_report :: report_body where
  "example_report =
     \<lparr>body_hazard_type = POTHOLE, body_latitude = 40, body_longitude = - 74,
      body_observed_at = Some (64 * MICROSECONDS_PER_HOUR)\<rparr>"

definition example_env_hour_100 :: "string \<Rightarrow> environment" where
  "example_env_hour_100 u = \<lparr>uuid4 = u, utcnow = (\<lambda>k. 100 * MICROSECONDS_PER_HOUR)\<rparr>"

text \<open>The report of the same observation with type DEBRIS.\<close>

definition example_debris_report :: report_body where
  "example_debris_report = example_report\<lparr>body_hazard_type := DEBRIS\<rparr>"

text \<open>Three hazards for the listing: two verified ones created at 100 and 300, and a
  pending one created at 200.\<close>

definition example_listing_db :: database where
  "example_listing_db =
     \<lparr>engine = SQLite,
      hazards = [example_hazard\<lparr>status := VERIFIED\<rparr>,
                 example_hazard\<lparr>hz_id := ''h2'', created_at := 200\<rparr>,
                 example_hazard\<lparr>hz_id := ''h3'', status := VERIFIED, created_at := 300\<rparr>],
      authorities = [], authority_verifications = [], audit_logs = []\<rparr>"

section \<open>Properties of the queries\<close>

lemma length_filter_status_split:
  "length (filter (\<lambda>h. status h \<noteq> REPORTED) hs) =
     length (filter (\<lambda>h. status h = PENDING_AUTHORITY) hs)
   + length (filter (\<lambda>h. status h = VERIFIED) hs)
   + length (filter (\<lambda>h. status h = RESOLVED) hs)"
proof (induction hs)
  case Nil
  show ?case by simp
next
  case (Cons h hs)
  then show ?case by (cases "status h") simp_all
qed

text \<open>
  C10. The total returned by the statistics operation is the sum of its three counts, and
  that sum is the number of hazards whose status is not REPORTED: a REPORTED hazard is in
  no bucket and not in the total.
\<close>

theorem get_authority_stats_total:
  "total (get_authority_stats db) =
     pending_authority (get_authority_stats db) + verified (get_authority_stats db)
       + resolved (get_authority_stats db)
   \<and> pending_authority (get_authority_stats db) = count_status db PENDING_AUTHORITY
   \<and> verified (get_authority_stats db) = count_status db VERIFIED
   \<and> resolved (get_authority_stats db) = count_status db RESOLVED
   \<and> total (get_authority_stats db) + count_status db REPORTED = length (hazards db)"
proof -
  have "length (filter (\<lambda>h. status h \<noteq> REPORTED) (hazards db))
          + length (filter (\<lambda>h. status h = REPORTED) (hazards db)) = length (hazards db)"
    using sum_length_filter_compl [of "\<lambda>h. status h \<noteq> REPORTED" "hazards db"] by simp
  then show ?thesis
    by (simp add: get_authority_stats_def count_status_def Let_def
          length_filter_status_split)
qed

lemma order_by_created_at_desc_sorted:
  "sorted_wrt (\<lambda>a b. created_at b \<le> created_at a) (order_by_created_at_desc rows)"
proof -
  have "sorted (map (\<lambda>h. - created_at h) (sort_key (\<lambda>h. - created_at h) rows))"
    by (rule sorted_sort_key)
  then show ?thesis
    by (simp add: order_by_created_at_desc_def sorted_map)
qed

lemma order_by_created_at_desc_set:
  "set (order_by_created_at_desc rows) = set rows"
  by (simp add: order_by_created_at_desc_def)

lemma sql_limit_Inr:
  assumes "sql_limit e n rows = Inr out"
  shows "set out \<subseteq> set rows"
    and "sorted_wrt P rows \<Longrightarrow> sorted_wrt P out"
    and "0 \<le> n \<Longrightarrow> int (length out) \<le> n"
proof -
  from assms have cases: "out = take (nat n) rows \<or> out = rows \<and> n < 0"
    by (auto simp: sql_limit_def split: if_splits engine.splits)
  from cases show "set out \<subseteq> set rows"
    by (auto dest: in_set_takeD)
  from cases show "sorted_wrt P rows \<Longrightarrow> sorted_wrt P out"
    by (auto intro: sorted_wrt_take)
  from cases show "0 \<le> n \<Longrightarrow> int (length out) \<le> n"
    by auto
qed

lemma sql_limit_in_range:
  "0 \<le> n \<Longrightarrow> n < 2 ^ 63 \<Longrightarrow> sql_limit e n rows = Inr (take (nat n) rows)"
  by (cases e) (simp_all add: sql_limit_def)

lemma all_rows_Inr:
  "all_rows rows = Inr out \<Longrightarrow> out = rows"
  by (simp add: all_rows_def split: if_splits)

text \<open>
  C1, amended. Whatever limit is given, the hazards that \<^verbatim>\<open>GET /hazards/verified\<close>
  returns are rows of the table whose status is VERIFIED (none is PENDING_AUTHORITY,
  RESOLVED or REPORTED), newest first by creation timestamp, and at most \<open>limit\<close> of
  them when the limit is not negative. The request does return a list when the limit is
  not negative and below \<open>2 ^ 63\<close> and every row of the table has a type that the
  column's enum can load. A negative limit reaches the database as it is: the bound is
  not promised for it.
\<close>

theorem get_verified_hazards_for_driver_visible:
  "(0 \<le> limit \<and> limit < 2 ^ 63 \<and> list_all loadable (hazards db) \<longrightarrow>
      (\<exists>hs. get_verified_hazards_for_driver db limit = Inr hs))
   \<and> (\<forall>hs. get_verified_hazards_for_driver db limit = Inr hs \<longrightarrow>
          set hs \<subseteq> set (hazards db)
        \<and> (\<forall>h \<in> set hs. status h = VERIFIED)
        \<and> sorted_wrt (\<lambda>a b. created_at b \<le> created_at a) hs
        \<and> (0 \<le> limit \<longrightarrow> int (length hs) \<le> limit))"
proof (intro conjI allI impI)
  let ?rows = "order_by_created_at_desc (filter (\<lambda>h. status h = VERIFIED) (hazards db))"
  assume a: "0 \<le> limit \<and> limit < 2 ^ 63 \<and> list_all loadable (hazards db)"
  then have "list_all loadable (take (nat limit) ?rows)"
    by (auto simp: list_all_iff order_by_created_at_desc_set dest: in_set_takeD)
  with a show "\<exists>hs. get_verified_hazards_for_driver db limit = Inr hs"
    by (simp add: get_verified_hazards_for_driver_def sql_limit_in_range all_rows_def)
next
  fix hs
  assume r: "get_verified_hazards_for_driver db limit = Inr hs"
  let ?rows = "order_by_created_at_desc (filter (\<lambda>h. status h = VERIFIED) (hazards db))"
  from r have l: "sql_limit (engine db) limit ?rows = Inr hs"
    by (auto simp: get_verified_hazards_for_driver_def split: sum.splits dest: all_rows_Inr)
  have sub: "set hs \<subseteq> set ?rows"
    by (rule sql_limit_Inr(1) [OF l])
  then show "set hs \<subseteq> set (hazards db)"
    by (auto simp: order_by_created_at_desc_set)
  from sub show "\<forall>h \<in> set hs. status h = VERIFIED"
    by (auto simp: order_by_created_at_desc_set)
  show "sorted_wrt (\<lambda>a b. created_at b \<le> created_at a) hs"
    by (rule sql_limit_Inr(2) [OF l order_by_created_at_desc_sorted])
  show "int (length hs) \<le> limit" if "0 \<le> limit"
    by (rule sql_limit_Inr(3) [OF l that])
qed

lemmas example_defs = example_listing_db_def example_hazard_def example_db_def
  example_authority_def example_verification_def example_env_def no_notes_def example_call_def

lemmas query_defs = get_verified_hazards_for_driver_def sql_limit_def
  order_by_created_at_desc_def all_rows_def loadable_def

theorem get_verified_hazards_for_driver_visible_witness:
  "(0::int) \<le> 1 \<and> (1::int) < 2 ^ 63 \<and> list_all loadable (hazards example_listing_db)
   \<and> get_verified_hazards_for_driver example_listing_db 1
     = Inr [example_hazard\<lparr>hz_id := ''h3'', status := VERIFIED, created_at := 300\<rparr>]
   \<and> status (example_hazard\<lparr>hz_id := ''h3'', status := VERIFIED, created_at := 300\<rparr>) = VERIFIED
   \<and> int (length [example_hazard\<lparr>hz_id := ''h3'', status := VERIFIED, created_at := 300\<rparr>]) \<le> 1"
proof -
  have l: "list_all loadable (hazards example_listing_db)"
    by (simp add: loadable_def example_listing_db_def example_hazard_def)
  have e: "get_verified_hazards_for_driver example_listing_db 1
     = Inr [example_hazard\<lparr>hz_id := ''h3'', status := VERIFIED, created_at := 300\<rparr>]"
    by (simp add: query_defs example_listing_db_def example_hazard_def)
  from get_verified_hazards_for_driver_visible [of 1 example_listing_db] l e
  show ?thesis by simp
qed

text \<open>
  The bound of C1 as stated, for every limit, fails on the default engine: with limit
  \<open>-1\<close> both verified hazards of the example come back.
\<close>

theorem get_verified_hazards_for_driver_limit_counterexample:
  "get_verified_hazards_for_driver example_listing_db (- 1)
     = Inr [example_hazard\<lparr>hz_id := ''h3'', status := VERIFIED, created_at := 300\<rparr>,
            example_hazard\<lparr>status := VERIFIED\<rparr>]
   \<and> \<not> int (length [example_hazard\<lparr>hz_id := ''h3'', status := VERIFIED, created_at := 300\<rparr>,
                      example_hazard\<lparr>status := VERIFIED\<rparr>]) \<le> - 1"
  by (simp add: query_defs example_listing_db_def example_hazard_def)
section \<open>Properties of the transitions\<close>



lemmas transition_defs = verify_hazard_def reject_hazard_def resolve_hazard_def Let_def








lemmas eval_defs = transition_defs commit_transition_def load_def perform_def notes_or_def
  authority_route_def verify_hazard_route_def get_current_authority_def decode_access_token_def
  validate_AuthorityVerificationRequest_def first_hazard_def loadable_def str_status_def



section \<open>Frame of the transitions, and reporting\<close>


lemmas report_defs = report_hazard_route_def validate_HazardReportRequest_def
  validate_observed_at_def days_def MICROSECONDS_PER_DAY_def MICROSECONDS_PER_HOUR_def
  report_hazard_def Let_def example_report_def example_debris_report_def
  example_env_hour_100_def loadable_def







section \<open>Where the code departs from its documentation\<close>

text \<open>
  C3. The claim is about the audit row of a successful Verify, Reject or Resolve. The
  routes build that row and commit it behind their guard, and the guard refuses every
  hazard: in the specification's scenario on the pending hazard \<open>h1\<close>, Verify is
  answered with status 400 and writes no audit row, and after Verify and Resolve the
  audit table is still empty, where the scenario counts two entries.
\<close>

theorem transition_appends_no_audit_log:
  "status example_hazard = PENDING_AUTHORITY
   \<and> perform (example_call Verify ''u1'') example_db
       = (Inl (HTTPException 400
                 ''Hazard is in HazardStatus.PENDING_AUTHORITY status, cannot verify''),
          example_db)
   \<and> audit_logs (run [example_call Verify ''u1'', example_call Resolve ''u2''] example_db) = []
   \<and> map status (hazards (run [example_call Verify ''u1'', example_call Resolve ''u2'']
                             example_db))
       = [PENDING_AUTHORITY]"
  by (simp add: eval_defs example_defs)

text \<open>
  C4. The claim is that a NATIONAL or inactive authority is refused with a permission
  error. The routes depend on \<^verbatim>\<open>get_current_authority\<close>, which tests neither
  \<^verbatim>\<open>is_active\<close> (its docstring says it does) nor the level;
  \<^verbatim>\<open>get_current_verifier\<close>, which would refuse, is used by no route. In the example
  the authority is NATIONAL and inactive, the verifier check would answer 403,
  \<^verbatim>\<open>get_current_authority\<close> lets the authority through, and the Verify route runs its
  body: it is answered by the status guard with 400, and with 404 for an id that is not
  there, never with a permission error.
\<close>

theorem verify_hazard_route_no_permission_check:
  "au_level example_authority = NATIONAL
   \<and> au_is_active example_authority = False
   \<and> get_current_verifier example_authority
       = Inl (HTTPException 403 ''Insufficient permissions. VERIFIER role required.'')
   \<and> get_current_authority (Payload [(''authority_id'', ''a1'')]) example_db
       = Inr example_authority
   \<and> verify_hazard_route (Payload [(''authority_id'', ''a1'')]) ''h1'' no_notes
        (example_env ''u1'') example_db
       = (Inl (HTTPException 400
                 ''Hazard is in HazardStatus.PENDING_AUTHORITY status, cannot verify''),
          example_db)
   \<and> verify_hazard_route (Payload [(''authority_id'', ''a1'')]) ''h0'' no_notes
        (example_env ''u1'') example_db
       = (Inl (HTTPException 404 ''Hazard h0 not found''), example_db)"
  by (simp add: eval_defs example_defs get_current_verifier_def)

text \<open>
  C5. The claim is that Verify on a PENDING_AUTHORITY hazard leaves it VERIFIED with a
  \<^verbatim>\<open>verified_at\<close> timestamp. In the example the hazard \<open>h1\<close> is PENDING_AUTHORITY and
  \<^verbatim>\<open>verify_hazard\<close> answers with status 400, because \<^verbatim>\<open>str()\<close> of the status is
  not the status's value; read back by the next request the hazard is still
  PENDING_AUTHORITY and has no \<^verbatim>\<open>verified_at\<close>.
\<close>

theorem verify_hazard_pending_refused:
  "hazards example_db = [example_hazard]
   \<and> status example_hazard = PENDING_AUTHORITY
   \<and> str_status PENDING_AUTHORITY = ''HazardStatus.PENDING_AUTHORITY''
   \<and> status_value PENDING_AUTHORITY = ''PENDING_AUTHORITY''
   \<and> verify_hazard ''h1'' no_notes example_authority (example_env ''u1'') example_db
       = (Inl (HTTPException 400
                 ''Hazard is in HazardStatus.PENDING_AUTHORITY status, cannot verify''),
          example_db)
   \<and> get_hazards_for_authority None
        (snd (verify_hazard ''h1'' no_notes example_authority (example_env ''u1'') example_db))
        100
       = Inr [\<lparr>row = example_hazard, verified_at = None\<rparr>]"
  by (simp add: eval_defs example_defs get_hazards_for_authority_def sql_limit_def
        order_by_created_at_desc_def all_rows_def)

text \<open>
  The validator accepts exactly the observations that are not after the first clock
  reading and less than 48 hours before the second: \<^verbatim>\<open>.days > 1\<close> holds from two full
  days on.
\<close>

lemma validate_observed_at_accepts_iff:
  "validate_observed_at now1 now2 v = Inr v
     \<longleftrightarrow> v \<le> now1 \<and> now2 - v < 48 * MICROSECONDS_PER_HOUR"
  by (auto simp: validate_observed_at_def days_def MICROSECONDS_PER_DAY_def
        MICROSECONDS_PER_HOUR_def)

text \<open>
  C6. The claim is that an \<^verbatim>\<open>observed_at\<close> more than 24 hours in the past is refused.
  An observation 36 hours old passes the validator, and the report that carries it
  creates hazard \<open>h9\<close>; an observation 48 hours old is refused.
\<close>

theorem validate_observed_at_36_hours_accepted:
  "100 * MICROSECONDS_PER_HOUR - 64 * MICROSECONDS_PER_HOUR = 36 * MICROSECONDS_PER_HOUR
   \<and> validate_observed_at (100 * MICROSECONDS_PER_HOUR) (100 * MICROSECONDS_PER_HOUR)
        (64 * MICROSECONDS_PER_HOUR) = Inr (64 * MICROSECONDS_PER_HOUR)
   \<and> fst (report_hazard_route example_report (example_env_hour_100 ''h9'') example_db)
       = Inr \<lparr>rs_status = ''received'', rs_message = ''Hazard report sent to safety team'',
              rs_hazard_id = ''h9'', rs_timestamp = 100 * MICROSECONDS_PER_HOUR\<rparr>
   \<and> map hz_id (hazards (snd (report_hazard_route example_report
                                  (example_env_hour_100 ''h9'') example_db)))
       = [''h1'', ''h9'']
   \<and> validate_observed_at (100 * MICROSECONDS_PER_HOUR) (100 * MICROSECONDS_PER_HOUR)
        (52 * MICROSECONDS_PER_HOUR)
       = Inl (ValueError ''observed_at must be within last 24 hours'')"
  by (simp add: report_defs example_defs)

text \<open>
  Whenever a token record matches, the redemption stops at the read of
  \<^verbatim>\<open>verification.used\<close>, an attribute that class \<^verbatim>\<open>AuthorityVerification\<close> does
  not have, and the database is unchanged.
\<close>

lemma verify_authority_token_found:
  "find (\<lambda>v. av_hazard_id v = hazard_id \<and> av_token v = token) (authority_verifications db)
     = Some verification \<Longrightarrow>
   verify_authority_token hazard_id token env db = (Inl (AttributeError ''used''), db)"
  by (simp add: verify_authority_token_def getattr_def)

text \<open>
  C8. The claim is that redeeming fails with NotFound without a matching record, with
  Expired after the expiry, and succeeds at most once. In the example the token expired
  at 500 and is redeemed at 1000: the result is the \<^verbatim>\<open>AttributeError\<close> on
  \<^verbatim>\<open>used\<close>, not the expiry error; the same token with expiry 5000 is not redeemed
  either; a token that matches no record gives the 404.
\<close>

theorem verify_authority_token_attribute_error:
  "av_token_expires_at example_verification < utcnow (example_env ''u1'') 0
   \<and> verify_authority_token ''h1'' ''t1'' (example_env ''u1'') example_db
       = (Inl (AttributeError ''used''), example_db)
   \<and> verify_authority_token ''h1'' ''t1''
        (example_env ''u1'')
        (example_db\<lparr>authority_verifications :=
                      [example_verification\<lparr>av_token_expires_at := 5000\<rparr>]\<rparr>)
       = (Inl (AttributeError ''used''),
          example_db\<lparr>authority_verifications :=
                      [example_verification\<lparr>av_token_expires_at := 5000\<rparr>]\<rparr>)
   \<and> verify_authority_token ''h1'' ''other'' (example_env ''u1'') example_db
       = (Inl (HTTPException 404 ''Invalid verification token''), example_db)"
  by (simp add: verify_authority_token_def getattr_def example_defs)

end
